theory Spec2Isabelle
  imports Main
begin

section \<open>JavaScript values\<close>

text \<open>
  The values that flow through the access-control code are strings, \<open>undefined\<close>,
  \<open>null\<close>, dates and plain objects. An object keeps its keys in insertion order, so
  it is an association list; assigning an existing key keeps its position, assigning a new
  key appends it (this is also what the spread \<open>{ ...o, k }\<close> does).
\<close>

datatype jsval =
    JUndefined
  | JNull
  | JStr string
  | JDate nat
  | JObj "(string \<times> jsval) list"

type_synonym jsobj = "(string \<times> jsval) list"

fun obj_get :: "jsobj \<Rightarrow> string \<Rightarrow> jsval" where
  "obj_get [] k = JUndefined"
| "obj_get ((k', v) # kvs) k = (if k' = k then v else obj_get kvs k)"

fun obj_set :: "jsobj \<Rightarrow> string \<Rightarrow> jsval \<Rightarrow> jsobj" where
  "obj_set [] k v = [(k, v)]"
| "obj_set ((k', v') # kvs) k v = (if k' = k then (k, v) # kvs else (k', v') # obj_set kvs k v)"

text \<open>
  A tenant id read from the context or from a header is a string or absent. JavaScript
  tests such a value with \<open>if (v)\<close>, \<open>!v\<close> and \<open>a || b\<close>: \<open>undefined\<close>,
  \<open>null\<close> and the empty string are falsy.
\<close>

definition truthy :: "string option \<Rightarrow> bool" where
  "truthy v = (case v of None \<Rightarrow> False | Some s \<Rightarrow> s \<noteq> [])"

definition js_or :: "string option \<Rightarrow> string option \<Rightarrow> string option" where
  "js_or a b = (if truthy a then a else b)"

definition upper_letters :: string where
  "upper_letters = ''ABCDEFGHIJKLMNOPQRSTUVWXYZ''"

definition lower_letters :: string where
  "lower_letters = ''abcdefghijklmnopqrstuvwxyz''"

definition lower_char :: "char \<Rightarrow> char" where
  "lower_char c = (case map_of (zip upper_letters lower_letters) c of Some l \<Rightarrow> l | None \<Rightarrow> c)"

definition toLowerCase :: "string \<Rightarrow> string" where
  "toLowerCase s = map lower_char s"

text \<open>\<open>s.split(' ')\<close>: every single space separates, so two spaces give an empty piece.\<close>

fun split_space :: "string \<Rightarrow> string list" where
  "split_space [] = [[]]"
| "split_space (c # cs) =
     (if c = CHR '' '' then [] # split_space cs
      else (case split_space cs of [] \<Rightarrow> [[c]] | w # ws \<Rightarrow> (c # w) # ws))"

section \<open>Constants (common/constants)\<close>

definition REQUEST_ID_KEY :: string where "REQUEST_ID_KEY = ''requestId''"
definition TENANT_ID_KEY :: string where "TENANT_ID_KEY = ''tenantId''"
definition PERMISSIONS_KEY :: string where "PERMISSIONS_KEY = ''permissions''"
definition TENANT_HEADER :: string where "TENANT_HEADER = ''X-Tenant-ID''"
definition SUPER_ADMIN :: string where "SUPER_ADMIN = ''super_admin''"
definition TENANT_REQUIRED :: string where "TENANT_REQUIRED = ''Tenant context is required''"
definition TENANT_MISMATCH :: string where "TENANT_MISMATCH = ''Tenant mismatch - access denied''"

section \<open>Request context store and request\<close>

text \<open>
  The continuation-local store (\<open>ClsService\<close>) is a key/value store owned by one request.
  \<open>cls.get\<close> on a key that was never set, or that was set to \<open>undefined\<close>, gives
  \<open>undefined\<close>: both are \<open>None\<close>.
\<close>

type_synonym cls = "string \<Rightarrow> string option"

definition cls_get :: "cls \<Rightarrow> string \<Rightarrow> string option" where
  "cls_get c k = c k"

definition cls_set :: "cls \<Rightarrow> string \<Rightarrow> string option \<Rightarrow> cls" where
  "cls_set c k v = c(k := v)"

text \<open>
  \<open>request.user\<close> is what the JWT strategy attached: id, tenant id and role names. A
  field the token did not carry is \<open>undefined\<close>.
\<close>

record user =
  user_id :: string
  user_tenantId :: "string option"
  user_roles :: "string list option"

text \<open>The Express request: header names are lower-cased by the HTTP layer.\<close>

record request =
  req_headers :: "string \<Rightarrow> string option"
  req_path :: string
  req_method :: string
  req_url :: string
  req_ip :: string
  req_requestId :: "string option"
  req_tenantId :: "string option"
  req_user :: "user option"

section \<open>Tenant resolver (TenantMiddleware)\<close>

text \<open>
  \<open>jwtService.decode\<close> belongs to the JWT library: it is a parameter. It throws, returns
  \<open>null\<close>, or returns the payload, of which only the \<open>tenantId\<close> claim is read.
\<close>

datatype decoded = DecodeThrows | DecodeNull | DecodePayload "string option"

definition extractTokenFromHeader :: "request \<Rightarrow> string option" where
  "extractTokenFromHeader req =
     (case req_headers req ''authorization'' of
        None \<Rightarrow> None
      | Some authHeader \<Rightarrow>
          if authHeader = [] then None
          else (case split_space authHeader of
                  ty # token # _ \<Rightarrow> if ty = ''Bearer'' then Some token else None
                | _ \<Rightarrow> None))"

definition extractFromJWT :: "(string \<Rightarrow> decoded) \<Rightarrow> request \<Rightarrow> string option" where
  "extractFromJWT decode req =
     (case extractTokenFromHeader req of
        None \<Rightarrow> None
      | Some token \<Rightarrow>
          if token = [] then None
          else (case decode token of
                  DecodeThrows \<Rightarrow> None
                | DecodeNull \<Rightarrow> None
                | DecodePayload tenantId \<Rightarrow> js_or tenantId None))"

definition extractFromHeader :: "request \<Rightarrow> string option" where
  "extractFromHeader req = js_or (req_headers req (toLowerCase TENANT_HEADER)) None"

text \<open>
  The slug pattern \<open>/\/public\/book\/([a-z0-9-]+)/i\<close>, searched anywhere in the
  path: the leftmost occurrence of the literal prefix (letters compared without case) that
  is followed by at least one slug character; the group takes as many as there are.
\<close>

definition is_slug_char :: "char \<Rightarrow> bool" where
  "is_slug_char c = (lower_char c \<in> set (lower_letters @ ''0123456789-''))"

fun match_prefix_ci :: "string \<Rightarrow> string \<Rightarrow> string option" where
  "match_prefix_ci [] s = Some s"
| "match_prefix_ci (p # ps) [] = None"
| "match_prefix_ci (p # ps) (c # cs) =
     (if lower_char c = lower_char p then match_prefix_ci ps cs else None)"

definition slug_match_at :: "string \<Rightarrow> string option" where
  "slug_match_at s =
     (case match_prefix_ci ''/public/book/'' s of
        None \<Rightarrow> None
      | Some rest \<Rightarrow>
          (let slug = takeWhile is_slug_char rest in if slug = [] then None else Some slug))"

fun slugMatch :: "string \<Rightarrow> string option" where
  "slugMatch [] = None"
| "slugMatch (c # cs) =
     (case slug_match_at (c # cs) of Some slug \<Rightarrow> Some slug | None \<Rightarrow> slugMatch cs)"

text \<open>
  Both branches of \<open>extractFromSlug\<close> return \<open>null\<close>: the lookup of the tenant by
  its slug is a comment in the source.
\<close>

definition extractFromSlug :: "request \<Rightarrow> string option" where
  "extractFromSlug req = (case slugMatch (req_path req) of Some slug \<Rightarrow> None | None \<Rightarrow> None)"

text \<open>The three steps inside the \<open>try\<close> of \<open>use\<close>, in the order of the source.\<close>

definition resolveTenant :: "(string \<Rightarrow> decoded) \<Rightarrow> request \<Rightarrow> string option" where
  "resolveTenant decode req =
     (let tenantId = extractFromJWT decode req;
          tenantId = (if \<not> truthy tenantId then extractFromHeader req else tenantId);
          tenantId = (if \<not> truthy tenantId then extractFromSlug req else tenantId)
      in tenantId)"

text \<open>
  \<open>use\<close> stores the request id, then the tenant id when one was found. The id made by
  \<open>uuidv4()\<close> is a parameter.
\<close>

definition TenantMiddleware_use ::
  "(string \<Rightarrow> decoded) \<Rightarrow> string \<Rightarrow> cls \<Rightarrow> request \<Rightarrow> cls \<times> request" where
  "TenantMiddleware_use decode requestId c req =
     (let c1 = cls_set c REQUEST_ID_KEY (Some requestId);
          req1 = req\<lparr>req_requestId := Some requestId\<rparr>;
          tenantId = resolveTenant decode req1
      in if truthy tenantId
         then (cls_set c1 TENANT_ID_KEY tenantId, req1\<lparr>req_tenantId := tenantId\<rparr>)
         else (c1, req1))"

section \<open>Guards\<close>

datatype http_exception = UnauthorizedException string | ForbiddenException string

text \<open>
  \<open>TenantGuard.canActivate\<close>. The route metadata read through the reflector is the
  \<open>isPublic\<close> flag only (\<open>undefined\<close> when the route carries no \<open>@Public()\<close>).
  The guard throws, or returns \<open>true\<close> and leaves the tenant id on the request.
\<close>

definition TenantGuard_canActivate ::
  "bool option \<Rightarrow> cls \<Rightarrow> request \<Rightarrow> http_exception + (bool \<times> request)" where
  "TenantGuard_canActivate isPublic c request =
     (if isPublic = Some True then Inr (True, request)
      else
        (let tenantId = js_or (cls_get c TENANT_ID_KEY) (req_tenantId request) in
         if \<not> truthy tenantId then Inl (UnauthorizedException TENANT_REQUIRED)
         else
           (case req_user request of
              Some u \<Rightarrow>
                if user_tenantId u \<noteq> tenantId then Inl (ForbiddenException TENANT_MISMATCH)
                else Inr (True, request\<lparr>req_tenantId := tenantId\<rparr>)
            | None \<Rightarrow> Inr (True, request\<lparr>req_tenantId := tenantId\<rparr>))))"

text \<open>The verdict alone, without the request the guard hands on.\<close>

definition verdict :: "http_exception + (bool \<times> request) \<Rightarrow> http_exception + bool" where
  "verdict r = (case r of Inl e \<Rightarrow> Inl e | Inr (b, _) \<Rightarrow> Inr b)"

text \<open>
  \<open>JwtAuthGuard\<close>. On a route marked public \<open>canActivate\<close> returns \<open>true\<close> at
  once; otherwise it calls the Passport guard it extends. Passport runs the \<open>jwt\<close>
  strategy, which is the library's: the parameter \<open>authenticate\<close> gives the error and the
  user the strategy reports. \<open>handleRequest\<close> throws the error, or an
  UnauthorizedException when there is no user, and returns the user, which Passport then
  attaches as \<open>request.user\<close>.
\<close>

type_synonym strategy = "request \<Rightarrow> http_exception option \<times> user option"

definition handleRequest :: "http_exception option \<Rightarrow> user option \<Rightarrow> http_exception + user" where
  "handleRequest err usr =
     (case err of
        Some e \<Rightarrow> Inl e
      | None \<Rightarrow>
          (case usr of
             None \<Rightarrow> Inl (UnauthorizedException ''Invalid or expired token'')
           | Some u \<Rightarrow> Inr u))"

definition JwtAuthGuard_canActivate ::
  "bool option \<Rightarrow> strategy \<Rightarrow> request \<Rightarrow> http_exception + (bool \<times> request)" where
  "JwtAuthGuard_canActivate isPublic authenticate request =
     (if isPublic = Some True then Inr (True, request)
      else
        (case authenticate request of
           (err, usr) \<Rightarrow>
             (case handleRequest err usr of
                Inl e \<Rightarrow> Inl e
              | Inr u \<Rightarrow> Inr (True, request\<lparr>req_user := Some u\<rparr>))))"

text \<open>
  \<open>main.ts\<close> registers the global guards \<open>JwtAuthGuard\<close>, then \<open>TenantGuard\<close>.
  They run in this order after the middleware, on the same route metadata; the first that
  throws ends the request, and a guard that returns \<open>false\<close> makes the framework answer
  with a ForbiddenException.
\<close>

definition globalGuards ::
  "bool option \<Rightarrow> strategy \<Rightarrow> cls \<Rightarrow> request \<Rightarrow> http_exception + (bool \<times> request)" where
  "globalGuards isPublic authenticate c request =
     (case JwtAuthGuard_canActivate isPublic authenticate request of
        Inl e \<Rightarrow> Inl e
      | Inr (ok, request1) \<Rightarrow>
          if ok then TenantGuard_canActivate isPublic c request1
          else Inl (ForbiddenException ''Forbidden resource''))"

text \<open>\<open>RolesGuard\<close>: \<open>matchRoles\<close> and \<open>canActivate\<close>.\<close>

definition js_includes :: "string list \<Rightarrow> string \<Rightarrow> bool" where
  "js_includes xs x = list_ex (\<lambda>y. y = x) xs"

definition matchRoles :: "string list \<Rightarrow> string list option \<Rightarrow> bool" where
  "matchRoles requiredRoles userRoles =
     (case userRoles of
        None \<Rightarrow> False
      | Some rs \<Rightarrow>
          if rs = [] then False
          else if js_includes rs SUPER_ADMIN then True
          else list_ex (\<lambda>role. js_includes rs role) requiredRoles)"

fun join :: "string \<Rightarrow> string list \<Rightarrow> string" where
  "join sep [] = []"
| "join sep [x] = x"
| "join sep (x # y # ys) = x @ sep @ join sep (y # ys)"

definition RolesGuard_canActivate :: "string list option \<Rightarrow> request \<Rightarrow> http_exception + bool" where
  "RolesGuard_canActivate requiredRoles request =
     (case requiredRoles of
        None \<Rightarrow> Inr True
      | Some rr \<Rightarrow>
          if rr = [] then Inr True
          else
            (case req_user request of
               None \<Rightarrow> Inl (ForbiddenException ''User not authenticated'')
             | Some u \<Rightarrow>
                 if \<not> matchRoles rr (user_roles u)
                 then Inl (ForbiddenException
                        (''Insufficient permissions. Required roles: '' @ join '', '' rr))
                 else Inr True))"

section \<open>Fine-grained permissions\<close>

text \<open>
  \<open>Permissions(...permissions)\<close> attaches the list to the handler under
  \<open>PERMISSIONS_KEY\<close>; \<open>User.hasPermission\<close> is the method of the user entity that is
  to check one permission. The entity carries no role or permission relation.
\<close>

definition Permissions :: "string list \<Rightarrow> string \<times> string list" where
  "Permissions permissions = (PERMISSIONS_KEY, permissions)"

record User =
  User_id :: string
  User_tenantId :: string
  User_email :: string
  User_isActive :: bool

definition hasRole :: "User \<Rightarrow> string \<Rightarrow> bool" where
  "hasRole this role = False"

definition hasPermission :: "User \<Rightarrow> string \<Rightarrow> bool" where
  "hasPermission this permission = False"

section \<open>Tenant-scoping data gateway (PrismaService)\<close>

text \<open>
  A Prisma middleware receives \<open>params\<close> (model, action, args) and \<open>next\<close>. The
  fields of \<open>args\<close> the middlewares touch are \<open>where\<close>, \<open>data\<close> and \<open>create\<close>;
  a field that is \<open>undefined\<close> is \<open>None\<close>. \<open>args\<close> itself is taken to be an object.
\<close>

record args =
  args_where :: "jsobj option"
  args_data :: "jsobj option"
  args_create :: "jsobj option"

record params =
  model :: "string option"
  action :: string
  args :: args

datatype js_error = TypeError string | Thrown jsval

definition nonTenantModels :: "string list" where
  "nonTenantModels = [''Tenant'']"

definition tenantScopedModels :: "string list" where
  "tenantScopedModels =
     [''User'', ''Role'', ''Permission'', ''UserRole'', ''RolePermission'',
      ''ApiKey'', ''AuditLog'', ''Subscription'', ''Invitation'', ''Webhook'', ''WebhookDelivery'']"

definition model_in :: "string list \<Rightarrow> string option \<Rightarrow> bool" where
  "model_in ms m = (case m of None \<Rightarrow> False | Some name \<Rightarrow> js_includes ms name)"

text \<open>\<open>{ ...o, tenantId }\<close>, where spreading \<open>undefined\<close> gives the empty object.\<close>

definition spread_tenant :: "jsobj option \<Rightarrow> string \<Rightarrow> jsobj option" where
  "spread_tenant obj tenantId =
     Some (obj_set (case obj of None \<Rightarrow> [] | Some kvs \<Rightarrow> kvs) ''tenantId'' (JStr tenantId))"

definition set_where :: "params \<Rightarrow> string \<Rightarrow> params" where
  "set_where p tenantId = p\<lparr>args := (args p)\<lparr>args_where := spread_tenant (args_where (args p)) tenantId\<rparr>\<rparr>"

definition set_data :: "params \<Rightarrow> string \<Rightarrow> params" where
  "set_data p tenantId = p\<lparr>args := (args p)\<lparr>args_data := spread_tenant (args_data (args p)) tenantId\<rparr>\<rparr>"

definition set_create :: "params \<Rightarrow> string \<Rightarrow> params" where
  "set_create p tenantId = p\<lparr>args := (args p)\<lparr>args_create := spread_tenant (args_create (args p)) tenantId\<rparr>\<rparr>"

text \<open>The rewriting of \<open>params\<close> for a tenant-scoped model, action by action.\<close>

definition inject_tenant :: "params \<Rightarrow> string \<Rightarrow> params" where
  "inject_tenant p tenantId =
     (if action p = ''findUnique'' \<or> action p = ''findFirst'' then set_where p tenantId
      else if action p = ''findMany'' then set_where p tenantId
      else if action p = ''count'' then set_where p tenantId
      else if action p = ''aggregate'' then set_where p tenantId
      else if action p = ''update'' \<or> action p = ''updateMany'' then set_where p tenantId
      else if action p = ''delete'' \<or> action p = ''deleteMany'' then set_where p tenantId
      else if action p = ''create'' then set_data p tenantId
      else if action p = ''upsert'' then set_create (set_where p tenantId) tenantId
      else p)"

text \<open>
  The tenant-isolation middleware registered in the constructor. Its result is whatever
  \<open>next\<close> gives for the params it hands on; the middleware has no \<open>throw\<close> of its own.
\<close>

definition tenantIsolation :: "cls \<Rightarrow> params \<Rightarrow> (params \<Rightarrow> js_error + 'r) \<Rightarrow> js_error + 'r" where
  "tenantIsolation c p next =
     (if model_in nonTenantModels (model p) then next p
      else
        (let tenantId = cls_get c TENANT_ID_KEY in
         if truthy tenantId
         then (if model_in tenantScopedModels (model p)
               then (case tenantId of Some t \<Rightarrow> next (inject_tenant p t) | None \<Rightarrow> next p)
               else next p)
         else next p))"

text \<open>
  \<open>enableSoftDelete\<close> registers two middlewares. \<open>new Date()\<close> is the parameter
  \<open>now\<close>. Assigning \<open>params.args.where.deletedAt\<close> when \<open>where\<close> is
  \<open>undefined\<close> throws a TypeError.
\<close>

definition softDeleteWrites :: "nat \<Rightarrow> params \<Rightarrow> (params \<Rightarrow> js_error + 'r) \<Rightarrow> js_error + 'r" where
  "softDeleteWrites now p next =
     (let p1 = (if action p = ''delete''
                then p\<lparr>action := ''update'',
                       args := (args p)\<lparr>args_data := Some [(''deletedAt'', JDate now)]\<rparr>\<rparr>
                else p);
          p2 = (if action p1 = ''deleteMany''
                then p1\<lparr>action := ''updateMany'',
                        args := (args p1)\<lparr>args_data :=
                          (case args_data (args p1) of
                             Some d \<Rightarrow> Some (obj_set d ''deletedAt'' (JDate now))
                           | None \<Rightarrow> Some [(''deletedAt'', JDate now)])\<rparr>\<rparr>
                else p1)
      in next p2)"

definition softDeleteReads :: "params \<Rightarrow> (params \<Rightarrow> js_error + 'r) \<Rightarrow> js_error + 'r" where
  "softDeleteReads p next =
     (case (if action p = ''findUnique'' \<or> action p = ''findFirst''
            then (case args_where (args p) of
                    None \<Rightarrow> Inl (TypeError ''Cannot set properties of undefined'')
                  | Some w \<Rightarrow>
                      Inr (p\<lparr>action := ''findFirst'',
                             args := (args p)\<lparr>args_where := Some (obj_set w ''deletedAt'' JNull)\<rparr>\<rparr>))
            else Inr p) of
        Inl e \<Rightarrow> Inl e
      | Inr p1 \<Rightarrow>
          next (if action p1 = ''findMany''
                then (case args_where (args p1) of
                        Some w \<Rightarrow>
                          if obj_get w ''deletedAt'' = JUndefined
                          then p1\<lparr>args := (args p1)\<lparr>args_where := Some (obj_set w ''deletedAt'' JNull)\<rparr>\<rparr>
                          else p1
                      | None \<Rightarrow> p1\<lparr>args := (args p1)\<lparr>args_where := Some [(''deletedAt'', JNull)]\<rparr>\<rparr>)
                else p1))"

text \<open>Middlewares run in the order of registration, each as the \<open>next\<close> of the one before.\<close>

definition enableSoftDelete :: "nat \<Rightarrow> params \<Rightarrow> (params \<Rightarrow> js_error + 'r) \<Rightarrow> js_error + 'r" where
  "enableSoftDelete now p next = softDeleteWrites now p (\<lambda>p'. softDeleteReads p' next)"

text \<open>The query engine as a \<open>next\<close> that reports the operation it was asked to run.\<close>

definition execute :: "params \<Rightarrow> js_error + params" where
  "execute p = Inr p"

text \<open>
  \<open>withoutTenantScope\<close>: the callback runs on the store and may change it; it returns
  or throws. The \<open>finally\<close> block runs in both cases and the result or the exception
  goes on to the caller.
\<close>

datatype 'a completion = Returned 'a | Threw jsval

definition withoutTenantScope :: "cls \<Rightarrow> (cls \<Rightarrow> 'a completion \<times> cls) \<Rightarrow> 'a completion \<times> cls" where
  "withoutTenantScope c callback =
     (let originalTenantId = cls_get c TENANT_ID_KEY;
          c1 = cls_set c TENANT_ID_KEY None;
          (r, c2) = callback c1
      in (r, cls_set c2 TENANT_ID_KEY originalTenantId))"

section \<open>Audit emitter (AuditInterceptor)\<close>

datatype AuditAction = CREATE | UPDATE | DELETE | LOGIN | LOGOUT | ACCESS | EXPORT

fun AuditAction_value :: "AuditAction \<Rightarrow> string" where
  "AuditAction_value CREATE = ''CREATE''"
| "AuditAction_value UPDATE = ''UPDATE''"
| "AuditAction_value DELETE = ''DELETE''"
| "AuditAction_value LOGIN = ''LOGIN''"
| "AuditAction_value LOGOUT = ''LOGOUT''"
| "AuditAction_value ACCESS = ''ACCESS''"
| "AuditAction_value EXPORT = ''EXPORT''"

record AuditOptions =
  audit_action :: AuditAction
  audit_resource :: string
  audit_description :: "string option"

definition str_or_undefined :: "string option \<Rightarrow> jsval" where
  "str_or_undefined v = (case v of None \<Rightarrow> JUndefined | Some s \<Rightarrow> JStr s)"

definition auditData :: "AuditOptions \<Rightarrow> request \<Rightarrow> string \<Rightarrow> jsobj" where
  "auditData auditOptions request timestamp =
     [(''action'', JStr (AuditAction_value (audit_action auditOptions))),
      (''resource'', JStr (audit_resource auditOptions)),
      (''description'', str_or_undefined (audit_description auditOptions)),
      (''userId'', (case req_user request of None \<Rightarrow> JUndefined | Some u \<Rightarrow> JStr (user_id u))),
      (''tenantId'', str_or_undefined (req_tenantId request)),
      (''ipAddress'', JStr (req_ip request)),
      (''userAgent'', str_or_undefined (req_headers request ''user-agent'')),
      (''method'', JStr (req_method request)),
      (''url'', JStr (req_url request)),
      (''timestamp'', JStr timestamp)]"

text \<open>
  What the handler's observable delivers: one result, or an error, which is any thrown
  value. Reading \<open>error.message\<close> throws a TypeError when the value is \<open>undefined\<close>
  or \<open>null\<close>, gives the property of an object, and \<open>undefined\<close> on other values.
\<close>

datatype 'a outcome = Success 'a | Failure js_error

definition error_message :: "js_error \<Rightarrow> js_error + jsval" where
  "error_message error =
     (case error of
        TypeError m \<Rightarrow> Inr (JStr m)
      | Thrown JUndefined \<Rightarrow> Inl (TypeError ''Cannot read properties of undefined (reading message)'')
      | Thrown JNull \<Rightarrow> Inl (TypeError ''Cannot read properties of null (reading message)'')
      | Thrown (JObj kvs) \<Rightarrow> Inr (obj_get kvs ''message'')
      | Thrown _ \<Rightarrow> Inr JUndefined)"

text \<open>
  The logger is Nest's: a parameter. A call returns (\<open>None\<close>) or throws (\<open>Some e\<close>).
  The \<open>tap\<close> operator of RxJS runs the observer's callback and then passes the
  notification on unchanged; when the callback throws, it sends the thrown error
  downstream in place of the notification.
\<close>

datatype log_level = LOG | ERROR

type_synonym logger = "log_level \<Rightarrow> string \<Rightarrow> jsobj \<Rightarrow> js_error option"

definition tap ::
  "('a \<Rightarrow> js_error option) \<Rightarrow> (js_error \<Rightarrow> js_error option) \<Rightarrow> 'a outcome \<Rightarrow> 'a outcome" where
  "tap onNext onError source =
     (case source of
        Success result \<Rightarrow> (case onNext result of Some e \<Rightarrow> Failure e | None \<Rightarrow> Success result)
      | Failure error \<Rightarrow> (case onError error of Some e \<Rightarrow> Failure e | None \<Rightarrow> Failure error))"

definition intercept ::
  "AuditOptions option \<Rightarrow> logger \<Rightarrow> request \<Rightarrow> string \<Rightarrow> 'a outcome \<Rightarrow> 'a outcome" where
  "intercept auditOptions logger request timestamp handle =
     (case auditOptions of
        None \<Rightarrow> handle
      | Some opts \<Rightarrow>
          (let ad = auditData opts request timestamp in
           tap (\<lambda>result. logger LOG ''Audit log created'' ad)
               (\<lambda>error. case error_message error of
                           Inl e \<Rightarrow> Some e
                         | Inr m \<Rightarrow> logger ERROR ''Audit log created (failed action)''
                                     (obj_set ad ''error'' m))
               handle))"

section \<open>Example inputs\<close>

definition plainRequest :: request where
  "plainRequest =
     \<lparr>req_headers = Map.empty, req_path = ''/api/v1/users'', req_method = ''GET'',
      req_url = ''/api/v1/users'', req_ip = ''10.0.0.7'', req_requestId = None,
      req_tenantId = None, req_user = None\<rparr>"

definition userOfTenantA :: user where
  "userOfTenantA = \<lparr>user_id = ''u1'', user_tenantId = Some ''tenant-a'', user_roles = Some [''user'']\<rparr>"

definition superAdminOfTenantA :: user where
  "superAdminOfTenantA =
     \<lparr>user_id = ''u2'', user_tenantId = Some ''tenant-a'', user_roles = Some [''super_admin'']\<rparr>"

definition viewerOfTenantA :: user where
  "viewerOfTenantA = \<lparr>user_id = ''u3'', user_tenantId = Some ''tenant-a'', user_roles = Some [''viewer'']\<rparr>"


definition authenticateSuperAdminA :: strategy where
  "authenticateSuperAdminA request = (None, Some superAdminOfTenantA)"

definition emptyCls :: cls where
  "emptyCls = Map.empty"

definition decodeTenant1 :: "string \<Rightarrow> decoded" where
  "decodeTenant1 token = DecodePayload (Some ''t1'')"

definition quietLogger :: logger where
  "quietLogger level message data = None"

definition failingLogger :: logger where
  "failingLogger level message data = Some (Thrown (JObj [(''message'', JStr ''log sink closed'')]))"

definition deleteUserAudit :: AuditOptions where
  "deleteUserAudit = \<lparr>audit_action = DELETE, audit_resource = ''User'', audit_description = None\<rparr>"

definition noArgs :: args where
  "noArgs = \<lparr>args_where = None, args_data = None, args_create = None\<rparr>"

definition setTenantAndReturn :: "cls \<Rightarrow> nat completion \<times> cls" where
  "setTenantAndReturn c = (Returned 7, cls_set c TENANT_ID_KEY (Some ''other''))"

definition setTenantAndThrow :: "cls \<Rightarrow> nat completion \<times> cls" where
  "setTenantAndThrow c = (Threw (JStr ''boom''), cls_set c TENANT_ID_KEY (Some ''other''))"

section \<open>Properties of the tenant resolver\<close>

lemma cls_get_set: "cls_get (cls_set c k v) k' = (if k' = k then v else cls_get c k')"
  by (simp add: cls_get_def cls_set_def)

lemma toLowerCase_TENANT_HEADER: "toLowerCase TENANT_HEADER = ''x-tenant-id''"
  by (simp add: toLowerCase_def TENANT_HEADER_def lower_char_def upper_letters_def lower_letters_def)

lemma split_space_no_space: "CHR '' '' \<notin> set s \<Longrightarrow> split_space s = [s]"
  by (induction s) auto

lemma split_space_nonempty: "split_space s \<noteq> []"
  by (induction s) (auto split: list.splits)

lemma extractFromSlug_null: "extractFromSlug req = None"
  by (simp add: extractFromSlug_def split: option.splits)

lemma bearer_token:
  assumes "req_headers req ''authorization'' = Some (''Bearer '' @ tok)"
  shows "extractTokenFromHeader req = Some (hd (split_space tok))"
proof -
  obtain w ws where "split_space tok = w # ws"
    using split_space_nonempty [of tok] by (cases "split_space tok") auto
  then show ?thesis using assms by (simp add: extractTokenFromHeader_def)
qed

lemma extract_ignore_requestId:
  "extractFromJWT decode (req\<lparr>req_requestId := r\<rparr>) = extractFromJWT decode req"
  "extractFromHeader (req\<lparr>req_requestId := r\<rparr>) = extractFromHeader req"
  by (simp_all add: extractFromJWT_def extractTokenFromHeader_def extractFromHeader_def)

lemma resolveTenant_ignore_requestId:
  "resolveTenant decode (req\<lparr>req_requestId := r\<rparr>) = resolveTenant decode req"
  by (simp add: resolveTenant_def Let_def extract_ignore_requestId extractFromSlug_null)

lemma use_stores:
  "cls_get (fst (TenantMiddleware_use decode rid c req)) TENANT_ID_KEY =
     (if truthy (resolveTenant decode req) then resolveTenant decode req else cls_get c TENANT_ID_KEY)"
  by (simp add: TenantMiddleware_use_def Let_def resolveTenant_ignore_requestId cls_get_set
        TENANT_ID_KEY_def REQUEST_ID_KEY_def)

lemma slugMatch_acme: "slugMatch ''/public/book/acme'' = Some ''acme''"
  by (simp add: slug_match_at_def is_slug_char_def lower_char_def upper_letters_def lower_letters_def)

text \<open>
  C3. The resolver takes its sources in strict priority order and the first that yields a
  tenant id wins. A bearer token whose decoded payload carries the tenant claim \<open>t1\<close>
  resolves to \<open>t1\<close> whatever the tenant header and the path say (token over header,
  the case of a token for \<open>t1\<close> with a header for \<open>t2\<close>); when the token yields
  nothing, a tenant header \<open>t2\<close> resolves to \<open>t2\<close> whatever the path says; only when
  neither yields a value is the result the one of the slug step. Tenant ids are non-empty
  strings: JavaScript treats the empty string as absent.
\<close>

theorem resolver_priority:
  "(req_headers req ''authorization'' = Some (''Bearer '' @ tok) \<and> tok \<noteq> [] \<and> CHR '' '' \<notin> set tok
      \<and> decode tok = DecodePayload (Some t1) \<and> t1 \<noteq> []
      \<longrightarrow> cls_get (fst (TenantMiddleware_use decode rid c req)) TENANT_ID_KEY = Some t1)
   \<and> (\<not> truthy (extractFromJWT decode req) \<and> req_headers req ''x-tenant-id'' = Some t2 \<and> t2 \<noteq> []
      \<longrightarrow> cls_get (fst (TenantMiddleware_use decode rid c req)) TENANT_ID_KEY = Some t2)
   \<and> (\<not> truthy (extractFromJWT decode req) \<and> \<not> truthy (req_headers req ''x-tenant-id'')
      \<longrightarrow> resolveTenant decode req = extractFromSlug req)"
proof (intro conjI impI)
  assume a: "req_headers req ''authorization'' = Some (''Bearer '' @ tok) \<and> tok \<noteq> [] \<and> CHR '' '' \<notin> set tok
      \<and> decode tok = DecodePayload (Some t1) \<and> t1 \<noteq> []"
  then have "extractTokenFromHeader req = Some tok"
    using bearer_token [of req tok] split_space_no_space [of tok] by simp
  with a have "extractFromJWT decode req = Some t1"
    by (simp add: extractFromJWT_def js_or_def truthy_def)
  with a have "resolveTenant decode req = Some t1"
    by (simp add: resolveTenant_def truthy_def)
  with a show "cls_get (fst (TenantMiddleware_use decode rid c req)) TENANT_ID_KEY = Some t1"
    by (simp add: use_stores truthy_def)
next
  assume a: "\<not> truthy (extractFromJWT decode req) \<and> req_headers req ''x-tenant-id'' = Some t2 \<and> t2 \<noteq> []"
  then have "extractFromHeader req = Some t2"
    by (simp add: extractFromHeader_def toLowerCase_TENANT_HEADER js_or_def truthy_def)
  with a have "resolveTenant decode req = Some t2"
    by (simp add: resolveTenant_def truthy_def)
  with a show "cls_get (fst (TenantMiddleware_use decode rid c req)) TENANT_ID_KEY = Some t2"
    by (simp add: use_stores truthy_def)
next
  assume a: "\<not> truthy (extractFromJWT decode req) \<and> \<not> truthy (req_headers req ''x-tenant-id'')"
  then have "\<not> truthy (extractFromHeader req)"
    by (simp add: extractFromHeader_def toLowerCase_TENANT_HEADER js_or_def truthy_def)
  with a show "resolveTenant decode req = extractFromSlug req"
    by (simp add: resolveTenant_def)
qed

theorem resolver_priority_witness:
  "cls_get (fst (TenantMiddleware_use decodeTenant1 ''req-1'' emptyCls
       (plainRequest\<lparr>req_headers := [''authorization'' \<mapsto> ''Bearer tok'', ''x-tenant-id'' \<mapsto> ''t2'']\<rparr>)))
     TENANT_ID_KEY = Some ''t1''
   \<and> cls_get (fst (TenantMiddleware_use decodeTenant1 ''req-2'' emptyCls
       (plainRequest\<lparr>req_headers := [''x-tenant-id'' \<mapsto> ''t2'']\<rparr>)))
     TENANT_ID_KEY = Some ''t2''
   \<and> resolveTenant decodeTenant1 plainRequest = extractFromSlug plainRequest"
proof -
  let ?D = "plainRequest\<lparr>req_headers := [''authorization'' \<mapsto> ''Bearer tok'', ''x-tenant-id'' \<mapsto> ''t2'']\<rparr>"
  let ?B = "plainRequest\<lparr>req_headers := [''x-tenant-id'' \<mapsto> ''t2'']\<rparr>"
  have h1: "req_headers ?D ''authorization'' = Some (''Bearer '' @ ''tok'') \<and> ''tok'' \<noteq> []
      \<and> CHR '' '' \<notin> set ''tok'' \<and> decodeTenant1 ''tok'' = DecodePayload (Some ''t1'') \<and> ''t1'' \<noteq> []"
    by (simp add: decodeTenant1_def)
  have h2: "\<not> truthy (extractFromJWT decodeTenant1 ?B) \<and> req_headers ?B ''x-tenant-id'' = Some ''t2'' \<and> ''t2'' \<noteq> []"
    by (simp add: extractFromJWT_def extractTokenFromHeader_def truthy_def)
  have h3: "\<not> truthy (extractFromJWT decodeTenant1 plainRequest)
      \<and> \<not> truthy (req_headers plainRequest ''x-tenant-id'')"
    by (simp add: extractFromJWT_def extractTokenFromHeader_def truthy_def plainRequest_def)
  from h1 resolver_priority [where req = ?D and tok = "''tok''" and decode = decodeTenant1
      and ?t1.0 = "''t1''" and rid = "''req-1''" and c = emptyCls]
  have c1: "cls_get (fst (TenantMiddleware_use decodeTenant1 ''req-1'' emptyCls ?D)) TENANT_ID_KEY = Some ''t1''"
    by blast
  from h2 resolver_priority [where req = ?B and decode = decodeTenant1
      and ?t2.0 = "''t2''" and rid = "''req-2''" and c = emptyCls]
  have c2: "cls_get (fst (TenantMiddleware_use decodeTenant1 ''req-2'' emptyCls ?B)) TENANT_ID_KEY = Some ''t2''"
    by blast
  from h3 resolver_priority [where req = plainRequest and decode = decodeTenant1]
  have c3: "resolveTenant decodeTenant1 plainRequest = extractFromSlug plainRequest"
    by blast
  from c1 c2 c3 show ?thesis by blast
qed

text \<open>
  C4, evaluated at the request of scenario C: no bearer token, no tenant header, path
  \<open>/public/book/acme\<close>. The slug pattern matches and captures \<open>acme\<close>, yet
  \<open>extractFromSlug\<close> returns \<open>null\<close> and the middleware leaves the tenant id of the
  context unset, whatever tenant the slug belongs to.
\<close>

theorem slug_route_unresolved:
  "slugMatch ''/public/book/acme'' = Some ''acme''
   \<and> extractFromSlug (plainRequest\<lparr>req_path := ''/public/book/acme''\<rparr>) = None
   \<and> cls_get (fst (TenantMiddleware_use decodeTenant1 ''req-3'' emptyCls
        (plainRequest\<lparr>req_path := ''/public/book/acme''\<rparr>))) TENANT_ID_KEY = None"
proof -
  let ?C = "plainRequest\<lparr>req_path := ''/public/book/acme''\<rparr>"
  have jwt: "extractFromJWT decodeTenant1 ?C = None"
    by (simp add: extractFromJWT_def extractTokenFromHeader_def plainRequest_def)
  have hdr: "extractFromHeader ?C = None"
    by (simp add: extractFromHeader_def toLowerCase_TENANT_HEADER js_or_def truthy_def plainRequest_def)
  have "resolveTenant decodeTenant1 ?C = None"
    by (simp add: resolveTenant_def jwt hdr truthy_def extractFromSlug_null)
  moreover have "cls_get emptyCls TENANT_ID_KEY = None"
    by (simp add: cls_get_def emptyCls_def)
  ultimately have "cls_get (fst (TenantMiddleware_use decodeTenant1 ''req-3'' emptyCls ?C)) TENANT_ID_KEY = None"
    by (simp add: use_stores truthy_def)
  with slugMatch_acme extractFromSlug_null [of ?C] show ?thesis
    by blast
qed

section \<open>Properties of the escape hatch\<close>

text \<open>
  C5. \<open>withoutTenantScope\<close> runs the callback on a context whose tenant id is cleared,
  hands on the callback's result when it returns and its exception when it throws, and in
  both cases leaves in the context the tenant id that was there before the call (absent
  when it was absent), whatever the callback did to the context.
\<close>

theorem withoutTenantScope_restores:
  "(callback (cls_set c TENANT_ID_KEY None) = (Returned v, c')
      \<longrightarrow> withoutTenantScope c callback = (Returned v, cls_set c' TENANT_ID_KEY (cls_get c TENANT_ID_KEY)))
   \<and> (callback (cls_set c TENANT_ID_KEY None) = (Threw e, c')
      \<longrightarrow> withoutTenantScope c callback = (Threw e, cls_set c' TENANT_ID_KEY (cls_get c TENANT_ID_KEY)))
   \<and> cls_get (cls_set c TENANT_ID_KEY None) TENANT_ID_KEY = None
   \<and> cls_get (snd (withoutTenantScope c callback)) TENANT_ID_KEY = cls_get c TENANT_ID_KEY"
  by (simp add: withoutTenantScope_def Let_def cls_get_set split: prod.splits)

theorem withoutTenantScope_restores_witness:
  "withoutTenantScope (cls_set emptyCls TENANT_ID_KEY (Some ''t1'')) setTenantAndReturn
     = (Returned 7, cls_set (cls_set (cls_set (cls_set emptyCls TENANT_ID_KEY (Some ''t1'')) TENANT_ID_KEY None)
          TENANT_ID_KEY (Some ''other'')) TENANT_ID_KEY (Some ''t1''))
   \<and> cls_get (snd (withoutTenantScope (cls_set emptyCls TENANT_ID_KEY (Some ''t1'')) setTenantAndReturn))
        TENANT_ID_KEY = Some ''t1''
   \<and> fst (withoutTenantScope emptyCls setTenantAndThrow) = Threw (JStr ''boom'')
   \<and> cls_get (snd (withoutTenantScope emptyCls setTenantAndThrow)) TENANT_ID_KEY = None"
proof -
  let ?c = "cls_set emptyCls TENANT_ID_KEY (Some ''t1'')"
  have r: "setTenantAndReturn (cls_set ?c TENANT_ID_KEY None)
      = (Returned 7, cls_set (cls_set ?c TENANT_ID_KEY None) TENANT_ID_KEY (Some ''other''))"
    by (simp add: setTenantAndReturn_def)
  have t: "setTenantAndThrow (cls_set emptyCls TENANT_ID_KEY None)
      = (Threw (JStr ''boom''), cls_set (cls_set emptyCls TENANT_ID_KEY None) TENANT_ID_KEY (Some ''other''))"
    by (simp add: setTenantAndThrow_def)
  have g: "cls_get ?c TENANT_ID_KEY = Some ''t1''" "cls_get emptyCls TENANT_ID_KEY = None"
    by (simp_all add: cls_get_def cls_set_def emptyCls_def)
  note w1 = withoutTenantScope_restores [where c = ?c and callback = setTenantAndReturn and v = 7
      and c' = "cls_set (cls_set ?c TENANT_ID_KEY None) TENANT_ID_KEY (Some ''other'')", unfolded g]
  note w2 = withoutTenantScope_restores [where c = emptyCls and callback = setTenantAndThrow
      and e = "JStr ''boom''"
      and c' = "cls_set (cls_set emptyCls TENANT_ID_KEY None) TENANT_ID_KEY (Some ''other'')", unfolded g]
  from r w1 have a: "withoutTenantScope ?c setTenantAndReturn
      = (Returned 7, cls_set (cls_set (cls_set ?c TENANT_ID_KEY None) TENANT_ID_KEY (Some ''other''))
           TENANT_ID_KEY (Some ''t1''))"
    by blast
  from w1 have b: "cls_get (snd (withoutTenantScope ?c setTenantAndReturn)) TENANT_ID_KEY = Some ''t1''"
    by blast
  from t w2 have "withoutTenantScope emptyCls setTenantAndThrow
      = (Threw (JStr ''boom''), cls_set (cls_set (cls_set emptyCls TENANT_ID_KEY None) TENANT_ID_KEY
           (Some ''other'')) TENANT_ID_KEY None)"
    by blast
  then have d: "fst (withoutTenantScope emptyCls setTenantAndThrow) = Threw (JStr ''boom'')"
    by simp
  from w2 have f: "cls_get (snd (withoutTenantScope emptyCls setTenantAndThrow)) TENANT_ID_KEY = None"
    by blast
  from a b d f show ?thesis by blast
qed

section \<open>Properties of the guards\<close>

lemma js_or_falsy: "\<not> truthy a \<Longrightarrow> js_or a b = b"
  by (simp add: js_or_def)

lemma includes_set: "js_includes xs x = (x \<in> set xs)"
  by (induction xs) (auto simp: js_includes_def)


lemma guard_mismatch:
  "isPublic \<noteq> Some True \<Longrightarrow> req_user request = Some u
   \<Longrightarrow> js_or (cls_get c TENANT_ID_KEY) (req_tenantId request) = Some t \<Longrightarrow> t \<noteq> []
   \<Longrightarrow> user_tenantId u \<noteq> Some t
   \<Longrightarrow> TenantGuard_canActivate isPublic c request = Inl (ForbiddenException TENANT_MISMATCH)"
  by (simp add: TenantGuard_canActivate_def truthy_def)

lemma matchRoles_super_admin: "SUPER_ADMIN \<in> set rs \<Longrightarrow> matchRoles rr (Some rs) = True"
  by (auto simp: matchRoles_def includes_set)

lemma verdict_roles_irrelevant:
  "req_user request = Some u \<Longrightarrow>
   verdict (TenantGuard_canActivate isPublic c (request\<lparr>req_user := Some (u\<lparr>user_roles := other\<rparr>)\<rparr>))
     = verdict (TenantGuard_canActivate isPublic c request)"
  by (simp add: TenantGuard_canActivate_def verdict_def Let_def)



lemma jwt_guard_attaches:
  "JwtAuthGuard_canActivate isPublic authenticate request1 = Inr (ok, request) \<Longrightarrow>
   ok \<and> (if isPublic = Some True then request = request1
         else \<exists>u. request = request1\<lparr>req_user := Some u\<rparr>)"
  by (auto simp: JwtAuthGuard_canActivate_def split: if_splits prod.splits sum.splits)

lemma public_route_no_principal:
  "req_user request1 = None \<Longrightarrow>
   JwtAuthGuard_canActivate (Some True) authenticate request1 = Inr (ok, request) \<Longrightarrow>
   req_user request = None"
  by (simp add: JwtAuthGuard_canActivate_def)

lemma guards_mismatch:
  assumes "req_user request1 = None"
    and "JwtAuthGuard_canActivate isPublic authenticate request1 = Inr (ok, request)"
    and "req_user request = Some u"
    and "js_or (cls_get c TENANT_ID_KEY) (req_tenantId request) = Some t"
    and "t \<noteq> []" and "user_tenantId u \<noteq> Some t"
  shows "globalGuards isPublic authenticate c request1 = Inl (ForbiddenException TENANT_MISMATCH)"
proof -
  have np: "isPublic \<noteq> Some True"
  proof
    assume "isPublic = Some True"
    with assms(1,2) have "req_user request = None"
      using public_route_no_principal by blast
    with assms(3) show False by simp
  qed
  from assms(2) have ok: "ok" using jwt_guard_attaches by blast
  from np assms(3-6) have "TenantGuard_canActivate isPublic c request = Inl (ForbiddenException TENANT_MISMATCH)"
    by (rule guard_mismatch)
  with assms(2) ok show ?thesis by (simp add: globalGuards_def)
qed

text \<open>
  C10. On a route that is not marked public, a request with no tenant id, neither in the
  context store nor on the request itself, is rejected by the tenant guard with the
  tenant-required condition. The only route metadata the guard reads is the public flag,
  so nothing lets a non-public route go on without a tenant.
\<close>

theorem tenant_required_on_non_public:
  assumes "isPublic \<noteq> Some True"
    and "\<not> truthy (cls_get c TENANT_ID_KEY)"
    and "\<not> truthy (req_tenantId request)"
  shows "TenantGuard_canActivate isPublic c request = Inl (UnauthorizedException TENANT_REQUIRED)"
  using assms by (simp add: TenantGuard_canActivate_def js_or_falsy)

theorem tenant_required_on_non_public_witness:
  "TenantGuard_canActivate None emptyCls plainRequest = Inl (UnauthorizedException TENANT_REQUIRED)
   \<and> TenantGuard_canActivate (Some False) (cls_set emptyCls TENANT_ID_KEY (Some []))
        (plainRequest\<lparr>req_user := Some userOfTenantA\<rparr>)
      = Inl (UnauthorizedException TENANT_REQUIRED)"
proof -
  have a: "None \<noteq> Some True" "Some False \<noteq> Some True" by simp_all
  have b: "\<not> truthy (cls_get emptyCls TENANT_ID_KEY)"
    "\<not> truthy (cls_get (cls_set emptyCls TENANT_ID_KEY (Some [])) TENANT_ID_KEY)"
    by (simp_all add: truthy_def cls_get_def cls_set_def emptyCls_def)
  have d: "\<not> truthy (req_tenantId plainRequest)"
    "\<not> truthy (req_tenantId (plainRequest\<lparr>req_user := Some userOfTenantA\<rparr>))"
    by (simp_all add: truthy_def plainRequest_def)
  show ?thesis
    using tenant_required_on_non_public [OF a(1) b(1) d(1)]
      tenant_required_on_non_public [OF a(2) b(2) d(2)] by blast
qed



text \<open>
  C6. A principal that holds the \<open>super_admin\<close> role passes the role guard for every
  required-role set: none attached, empty, one role or several. The role has no effect on
  the tenant check: the tenant guard's verdict is the same whatever roles the principal
  holds, and a request whose authenticated principal is a super-admin with a tenant id
  other than the resolved one is denied by the global guards with the tenant-mismatch
  condition, on every route metadata.
\<close>

theorem super_admin_roles_only:
  assumes "req_user request = Some u" and "user_roles u = Some rs" and "SUPER_ADMIN \<in> set rs"
  shows "RolesGuard_canActivate requiredRoles request = Inr True
     \<and> verdict (TenantGuard_canActivate isPublic c request)
         = verdict (TenantGuard_canActivate isPublic c (request\<lparr>req_user := Some (u\<lparr>user_roles := other\<rparr>)\<rparr>))
     \<and> (req_user request1 = None
          \<and> JwtAuthGuard_canActivate isPublic authenticate request1 = Inr (ok, request)
          \<and> js_or (cls_get c TENANT_ID_KEY) (req_tenantId request) = Some t
          \<and> t \<noteq> [] \<and> user_tenantId u \<noteq> Some t
          \<longrightarrow> globalGuards isPublic authenticate c request1 = Inl (ForbiddenException TENANT_MISMATCH))"
proof (intro conjI impI)
  show "RolesGuard_canActivate requiredRoles request = Inr True"
    using assms by (simp add: RolesGuard_canActivate_def matchRoles_super_admin split: option.splits)
next
  show "verdict (TenantGuard_canActivate isPublic c request)
         = verdict (TenantGuard_canActivate isPublic c (request\<lparr>req_user := Some (u\<lparr>user_roles := other\<rparr>)\<rparr>))"
    using assms(1) by (simp add: verdict_roles_irrelevant)
next
  assume h: "req_user request1 = None
          \<and> JwtAuthGuard_canActivate isPublic authenticate request1 = Inr (ok, request)
          \<and> js_or (cls_get c TENANT_ID_KEY) (req_tenantId request) = Some t
          \<and> t \<noteq> [] \<and> user_tenantId u \<noteq> Some t"
  with assms(1) show "globalGuards isPublic authenticate c request1 = Inl (ForbiddenException TENANT_MISMATCH)"
    using guards_mismatch [of request1 isPublic authenticate ok request u c t] by blast
qed

theorem super_admin_roles_only_witness:
  "RolesGuard_canActivate (Some []) (plainRequest\<lparr>req_user := Some superAdminOfTenantA\<rparr>) = Inr True
   \<and> RolesGuard_canActivate (Some [''admin'']) (plainRequest\<lparr>req_user := Some superAdminOfTenantA\<rparr>) = Inr True
   \<and> RolesGuard_canActivate (Some [''admin'', ''user'']) (plainRequest\<lparr>req_user := Some superAdminOfTenantA\<rparr>) = Inr True
   \<and> globalGuards None authenticateSuperAdminA (cls_set emptyCls TENANT_ID_KEY (Some ''tenant-b'')) plainRequest
      = Inl (ForbiddenException TENANT_MISMATCH)"
proof -
  let ?r = "plainRequest\<lparr>req_user := Some superAdminOfTenantA\<rparr>"
  let ?c = "cls_set emptyCls TENANT_ID_KEY (Some ''tenant-b'')"
  have a: "req_user ?r = Some superAdminOfTenantA" by simp
  have b: "user_roles superAdminOfTenantA = Some [''super_admin'']"
    by (simp add: superAdminOfTenantA_def)
  have s: "SUPER_ADMIN \<in> set [''super_admin'']" by (simp add: SUPER_ADMIN_def)
  have d: "req_user plainRequest = None
      \<and> JwtAuthGuard_canActivate None authenticateSuperAdminA plainRequest = Inr (True, ?r)
      \<and> js_or (cls_get ?c TENANT_ID_KEY) (req_tenantId ?r) = Some ''tenant-b''
      \<and> ''tenant-b'' \<noteq> [] \<and> user_tenantId superAdminOfTenantA \<noteq> Some ''tenant-b''"
    by (simp add: JwtAuthGuard_canActivate_def authenticateSuperAdminA_def handleRequest_def
        cls_get_set js_or_def truthy_def superAdminOfTenantA_def plainRequest_def)
  note w = super_admin_roles_only [OF a b s]
  from d w [where requiredRoles = "Some []"] w [where requiredRoles = "Some [''admin'']"]
    w [where requiredRoles = "Some [''admin'', ''user'']" and isPublic = None and c = ?c
       and t = "''tenant-b''" and ?request1.0 = plainRequest and authenticate = authenticateSuperAdminA
       and ok = True]
  show ?thesis by blast
qed

section \<open>Properties of the data gateway\<close>

lemma scoped_not_exempt: "model_in tenantScopedModels m \<Longrightarrow> \<not> model_in nonTenantModels m"
  by (auto simp: model_in_def tenantScopedModels_def nonTenantModels_def js_includes_def split: option.splits)

text \<open>
  What the soft-delete middlewares do hand on: \<open>delete\<close> becomes an \<open>update\<close> and
  \<open>deleteMany\<close> an \<open>updateMany\<close> that set \<open>deletedAt\<close>, and \<open>findMany\<close>
  gets \<open>deletedAt: null\<close> unless the caller's \<open>where\<close> has a \<open>deletedAt\<close>.
\<close>

lemma soft_delete_rewrites_delete:
  "action p = ''delete'' \<Longrightarrow>
   enableSoftDelete now p next
     = next (p\<lparr>action := ''update'', args := (args p)\<lparr>args_data := Some [(''deletedAt'', JDate now)]\<rparr>\<rparr>)"
  by (simp add: enableSoftDelete_def softDeleteWrites_def softDeleteReads_def)

lemma soft_delete_rewrites_deleteMany:
  "action p = ''deleteMany'' \<Longrightarrow> args_data (args p) = None \<Longrightarrow>
   enableSoftDelete now p next
     = next (p\<lparr>action := ''updateMany'', args := (args p)\<lparr>args_data := Some [(''deletedAt'', JDate now)]\<rparr>\<rparr>)"
  by (simp add: enableSoftDelete_def softDeleteWrites_def softDeleteReads_def)

lemma soft_delete_findMany:
  "action p = ''findMany'' \<Longrightarrow> args_where (args p) = Some w \<Longrightarrow>
   enableSoftDelete now p next
     = next (if obj_get w ''deletedAt'' = JUndefined
             then p\<lparr>args := (args p)\<lparr>args_where := Some (obj_set w ''deletedAt'' JNull)\<rparr>\<rparr> else p)"
  by (simp add: enableSoftDelete_def softDeleteWrites_def softDeleteReads_def)

text \<open>
  C1, as stated, fails: with no tenant id in the context, \<open>findMany\<close> on the
  tenant-scoped model \<open>User\<close> is not rejected. It reaches the query engine as the
  caller wrote it, with no tenant filter.
\<close>

theorem no_tenant_operation_executes:
  "tenantIsolation emptyCls \<lparr>model = Some ''User'', action = ''findMany'', args = noArgs\<rparr> execute
     = Inr \<lparr>model = Some ''User'', action = ''findMany'', args = noArgs\<rparr>"
  by (simp add: tenantIsolation_def execute_def model_in_def nonTenantModels_def js_includes_def
      truthy_def cls_get_def emptyCls_def)

text \<open>
  C1, amended. The gateway rejects nothing. While no tenant id is resolved in the context,
  every operation is handed on unchanged. With a tenant id \<open>t\<close> in the context, an
  operation on a model of the tenant-scoped list is handed on with \<open>tenantId: t\<close>
  written into \<open>args.where\<close> when its action is \<open>findUnique\<close>, \<open>findFirst\<close>,
  \<open>findMany\<close>, \<open>count\<close>, \<open>aggregate\<close>, \<open>update\<close>, \<open>updateMany\<close>,
  \<open>delete\<close> or \<open>deleteMany\<close>, into \<open>args.data\<close> when it is \<open>create\<close>, and
  into \<open>args.where\<close> and \<open>args.create\<close> when it is \<open>upsert\<close>; a
  \<open>tenantId\<close> the caller wrote there is replaced. An operation with any other action,
  or on a model outside the list, is handed on unchanged.
\<close>

theorem tenant_filter_only_with_tenant:
  "(\<not> truthy (cls_get c TENANT_ID_KEY) \<longrightarrow> tenantIsolation c p next = next p)
   \<and> (cls_get c TENANT_ID_KEY = Some t \<and> t \<noteq> [] \<and> model_in tenantScopedModels (model p)
        \<longrightarrow> tenantIsolation c p next =
            next (if action p \<in> set [''findUnique'', ''findFirst'', ''findMany'', ''count'', ''aggregate'',
                                     ''update'', ''updateMany'', ''delete'', ''deleteMany'']
                  then p\<lparr>args := (args p)\<lparr>args_where := Some (obj_set (case args_where (args p) of None \<Rightarrow> [] | Some kvs \<Rightarrow> kvs) ''tenantId'' (JStr t))\<rparr>\<rparr>
                  else if action p = ''create''
                  then p\<lparr>args := (args p)\<lparr>args_data := Some (obj_set (case args_data (args p) of None \<Rightarrow> [] | Some kvs \<Rightarrow> kvs) ''tenantId'' (JStr t))\<rparr>\<rparr>
                  else if action p = ''upsert''
                  then p\<lparr>args := (args p)
                         \<lparr>args_where := Some (obj_set (case args_where (args p) of None \<Rightarrow> [] | Some kvs \<Rightarrow> kvs) ''tenantId'' (JStr t)),
                          args_create := Some (obj_set (case args_create (args p) of None \<Rightarrow> [] | Some kvs \<Rightarrow> kvs) ''tenantId'' (JStr t))\<rparr>\<rparr>
                  else p))
   \<and> (\<not> model_in tenantScopedModels (model p) \<longrightarrow> tenantIsolation c p next = next p)"
proof (intro conjI impI)
  assume "\<not> truthy (cls_get c TENANT_ID_KEY)"
  then show "tenantIsolation c p next = next p"
    by (simp add: tenantIsolation_def)
next
  assume h: "cls_get c TENANT_ID_KEY = Some t \<and> t \<noteq> [] \<and> model_in tenantScopedModels (model p)"
  then have "tenantIsolation c p next = next (inject_tenant p t)"
    by (simp add: tenantIsolation_def scoped_not_exempt truthy_def)
  then show "tenantIsolation c p next =
            next (if action p \<in> set [''findUnique'', ''findFirst'', ''findMany'', ''count'', ''aggregate'',
                                     ''update'', ''updateMany'', ''delete'', ''deleteMany'']
                  then p\<lparr>args := (args p)\<lparr>args_where := Some (obj_set (case args_where (args p) of None \<Rightarrow> [] | Some kvs \<Rightarrow> kvs) ''tenantId'' (JStr t))\<rparr>\<rparr>
                  else if action p = ''create''
                  then p\<lparr>args := (args p)\<lparr>args_data := Some (obj_set (case args_data (args p) of None \<Rightarrow> [] | Some kvs \<Rightarrow> kvs) ''tenantId'' (JStr t))\<rparr>\<rparr>
                  else if action p = ''upsert''
                  then p\<lparr>args := (args p)
                         \<lparr>args_where := Some (obj_set (case args_where (args p) of None \<Rightarrow> [] | Some kvs \<Rightarrow> kvs) ''tenantId'' (JStr t)),
                          args_create := Some (obj_set (case args_create (args p) of None \<Rightarrow> [] | Some kvs \<Rightarrow> kvs) ''tenantId'' (JStr t))\<rparr>\<rparr>
                  else p)"
    by (auto simp: inject_tenant_def set_where_def set_data_def set_create_def spread_tenant_def)
next
  assume "\<not> model_in tenantScopedModels (model p)"
  then show "tenantIsolation c p next = next p"
    by (simp add: tenantIsolation_def Let_def)
qed

theorem tenant_filter_only_with_tenant_witness:
  "tenantIsolation emptyCls
      \<lparr>model = Some ''User'', action = ''deleteMany'',
       args = noArgs\<lparr>args_where := Some [(''email'', JStr ''a@b.c'')]\<rparr>\<rparr> execute
     = Inr \<lparr>model = Some ''User'', action = ''deleteMany'',
            args = noArgs\<lparr>args_where := Some [(''email'', JStr ''a@b.c'')]\<rparr>\<rparr>
   \<and> tenantIsolation (cls_set emptyCls TENANT_ID_KEY (Some ''t1''))
      \<lparr>model = Some ''User'', action = ''deleteMany'',
       args = noArgs\<lparr>args_where := Some [(''email'', JStr ''a@b.c'')]\<rparr>\<rparr> execute
     = Inr \<lparr>model = Some ''User'', action = ''deleteMany'',
            args = noArgs\<lparr>args_where := Some [(''email'', JStr ''a@b.c''), (''tenantId'', JStr ''t1'')]\<rparr>\<rparr>
   \<and> tenantIsolation (cls_set emptyCls TENANT_ID_KEY (Some ''t1''))
      \<lparr>model = Some ''User'', action = ''create'',
       args = noArgs\<lparr>args_data := Some [(''email'', JStr ''a@b.c''), (''tenantId'', JStr ''t9'')]\<rparr>\<rparr> execute
     = Inr \<lparr>model = Some ''User'', action = ''create'',
            args = noArgs\<lparr>args_data := Some [(''email'', JStr ''a@b.c''), (''tenantId'', JStr ''t1'')]\<rparr>\<rparr>
   \<and> tenantIsolation (cls_set emptyCls TENANT_ID_KEY (Some ''t1''))
      \<lparr>model = Some ''User'', action = ''upsert'', args = noArgs\<rparr> execute
     = Inr \<lparr>model = Some ''User'', action = ''upsert'',
            args = noArgs\<lparr>args_where := Some [(''tenantId'', JStr ''t1'')],
                          args_create := Some [(''tenantId'', JStr ''t1'')]\<rparr>\<rparr>
   \<and> tenantIsolation (cls_set emptyCls TENANT_ID_KEY (Some ''t1''))
      \<lparr>model = Some ''User'', action = ''groupBy'', args = noArgs\<rparr> execute
     = Inr \<lparr>model = Some ''User'', action = ''groupBy'', args = noArgs\<rparr>
   \<and> tenantIsolation (cls_set emptyCls TENANT_ID_KEY (Some ''t1''))
      \<lparr>model = Some ''Tenant'', action = ''findMany'', args = noArgs\<rparr> execute
     = Inr \<lparr>model = Some ''Tenant'', action = ''findMany'', args = noArgs\<rparr>"
proof -
  let ?c = "cls_set emptyCls TENANT_ID_KEY (Some ''t1'')"
  let ?del = "\<lparr>model = Some ''User'', action = ''deleteMany'',
       args = noArgs\<lparr>args_where := Some [(''email'', JStr ''a@b.c'')]\<rparr>\<rparr>"
  let ?cre = "\<lparr>model = Some ''User'', action = ''create'',
       args = noArgs\<lparr>args_data := Some [(''email'', JStr ''a@b.c''), (''tenantId'', JStr ''t9'')]\<rparr>\<rparr>"
  let ?ups = "\<lparr>model = Some ''User'', action = ''upsert'', args = noArgs\<rparr>"
  let ?grp = "\<lparr>model = Some ''User'', action = ''groupBy'', args = noArgs\<rparr>"
  let ?ten = "\<lparr>model = Some ''Tenant'', action = ''findMany'', args = noArgs\<rparr>"
  have a: "\<not> truthy (cls_get emptyCls TENANT_ID_KEY)"
    by (simp add: truthy_def cls_get_def emptyCls_def)
  have t: "cls_get ?c TENANT_ID_KEY = Some ''t1''" "''t1'' \<noteq> []"
    by (simp_all add: cls_get_set)
  have s: "model_in tenantScopedModels (model ?del)" "model_in tenantScopedModels (model ?cre)"
    "model_in tenantScopedModels (model ?ups)" "model_in tenantScopedModels (model ?grp)"
    by (simp_all add: model_in_def tenantScopedModels_def js_includes_def)
  have n: "\<not> model_in tenantScopedModels (model ?ten)"
    by (simp add: model_in_def tenantScopedModels_def js_includes_def)
  have c1: "tenantIsolation emptyCls ?del execute = Inr ?del"
    using a tenant_filter_only_with_tenant [where c = emptyCls and p = ?del and ?next = execute]
    by (simp add: execute_def)
  have c2: "tenantIsolation ?c ?del execute
     = Inr \<lparr>model = Some ''User'', action = ''deleteMany'',
            args = noArgs\<lparr>args_where := Some [(''email'', JStr ''a@b.c''), (''tenantId'', JStr ''t1'')]\<rparr>\<rparr>"
    using t s(1) tenant_filter_only_with_tenant [where c = ?c and p = ?del and ?next = execute and t = "''t1''"]
    by (simp add: execute_def noArgs_def)
  have c3: "tenantIsolation ?c ?cre execute
     = Inr \<lparr>model = Some ''User'', action = ''create'',
            args = noArgs\<lparr>args_data := Some [(''email'', JStr ''a@b.c''), (''tenantId'', JStr ''t1'')]\<rparr>\<rparr>"
    using t s(2) tenant_filter_only_with_tenant [where c = ?c and p = ?cre and ?next = execute and t = "''t1''"]
    by (simp add: execute_def noArgs_def)
  have c4: "tenantIsolation ?c ?ups execute
     = Inr \<lparr>model = Some ''User'', action = ''upsert'',
            args = noArgs\<lparr>args_where := Some [(''tenantId'', JStr ''t1'')],
                          args_create := Some [(''tenantId'', JStr ''t1'')]\<rparr>\<rparr>"
    using t s(3) tenant_filter_only_with_tenant [where c = ?c and p = ?ups and ?next = execute and t = "''t1''"]
    by (simp add: execute_def noArgs_def)
  have c5: "tenantIsolation ?c ?grp execute = Inr ?grp"
    using t s(4) tenant_filter_only_with_tenant [where c = ?c and p = ?grp and ?next = execute and t = "''t1''"]
    by (simp add: execute_def)
  have c6: "tenantIsolation ?c ?ten execute = Inr ?ten"
    using n tenant_filter_only_with_tenant [where c = ?c and p = ?ten and ?next = execute]
    by (simp add: execute_def)
  from c1 c2 c3 c4 c5 c6 show ?thesis by blast
qed

text \<open>
  C8, evaluated. A \<open>findFirst\<close> whose caller asks for soft-deleted rows with
  \<open>deletedAt: { not: null }\<close> has the condition overwritten by \<open>deletedAt: null\<close>;
  the same \<open>where\<close> on \<open>findMany\<close> is left as the caller wrote it; and a
  \<open>findFirst\<close> without \<open>where\<close> throws a TypeError instead of reading.
\<close>

theorem soft_delete_findFirst_ignores_opt_out:
  "enableSoftDelete 1700000000
      \<lparr>model = Some ''User'', action = ''findFirst'',
       args = noArgs\<lparr>args_where := Some [(''id'', JStr ''u1''), (''deletedAt'', JObj [(''not'', JNull)])]\<rparr>\<rparr>
      execute
    = Inr \<lparr>model = Some ''User'', action = ''findFirst'',
           args = noArgs\<lparr>args_where := Some [(''id'', JStr ''u1''), (''deletedAt'', JNull)]\<rparr>\<rparr>
   \<and> enableSoftDelete 1700000000
      \<lparr>model = Some ''User'', action = ''findMany'',
       args = noArgs\<lparr>args_where := Some [(''id'', JStr ''u1''), (''deletedAt'', JObj [(''not'', JNull)])]\<rparr>\<rparr>
      execute
    = Inr \<lparr>model = Some ''User'', action = ''findMany'',
           args = noArgs\<lparr>args_where := Some [(''id'', JStr ''u1''), (''deletedAt'', JObj [(''not'', JNull)])]\<rparr>\<rparr>
   \<and> enableSoftDelete 1700000000 \<lparr>model = Some ''User'', action = ''findFirst'', args = noArgs\<rparr> execute
    = Inl (TypeError ''Cannot set properties of undefined'')"
  by (simp add: enableSoftDelete_def softDeleteWrites_def softDeleteReads_def execute_def noArgs_def)

section \<open>Properties of the audit interceptor\<close>

text \<open>
  C9, as stated, fails when the audit callback itself fails. A handler error \<open>null\<close>
  makes the error callback throw on \<open>error.message\<close>, and the caller receives that
  TypeError in place of the handler's error; a logger call that throws turns a successful
  result into a failure.
\<close>

theorem audit_error_replaces_outcome:
  "intercept (Some deleteUserAudit) quietLogger plainRequest ''2026-01-01T00:00:00.000Z''
      (Failure (Thrown JNull) :: nat outcome)
    = Failure (TypeError ''Cannot read properties of null (reading message)'')
   \<and> intercept (Some deleteUserAudit) failingLogger plainRequest ''2026-01-01T00:00:00.000Z''
      (Success 7 :: nat outcome)
    = Failure (Thrown (JObj [(''message'', JStr ''log sink closed'')]))
   \<and> intercept (Some deleteUserAudit) quietLogger plainRequest ''2026-01-01T00:00:00.000Z''
      (Failure (Thrown JNull) :: nat outcome)
    \<noteq> Failure (Thrown JNull)"
  by (simp add: intercept_def tap_def error_message_def quietLogger_def failingLogger_def)

text \<open>
  C9, amended. An operation without audit metadata is passed through untouched. For an
  audited operation, whenever the audit callback completes without throwing, the caller
  receives exactly what the handler produced: its result on success, its error on failure.
\<close>

theorem audit_keeps_outcome:
  "intercept None logger request timestamp handle = handle
   \<and> (handle = Success v \<and> logger LOG ''Audit log created'' (auditData opts request timestamp) = None
        \<longrightarrow> intercept (Some opts) logger request timestamp handle = Success v)
   \<and> (handle = Failure e \<and> error_message e = Inr m
        \<and> logger ERROR ''Audit log created (failed action)''
             (obj_set (auditData opts request timestamp) ''error'' m) = None
        \<longrightarrow> intercept (Some opts) logger request timestamp handle = Failure e)"
  by (simp add: intercept_def tap_def Let_def)

theorem audit_keeps_outcome_witness:
  "intercept (Some deleteUserAudit) quietLogger plainRequest ''2026-01-01T00:00:00.000Z'' (Success (7::nat))
     = Success 7
   \<and> intercept (Some deleteUserAudit) quietLogger plainRequest ''2026-01-01T00:00:00.000Z''
        (Failure (Thrown (JObj [(''message'', JStr ''not found'')])) :: nat outcome)
     = Failure (Thrown (JObj [(''message'', JStr ''not found'')]))
   \<and> intercept None failingLogger plainRequest ''2026-01-01T00:00:00.000Z'' (Success (7::nat)) = Success 7"
proof -
  let ?ts = "''2026-01-01T00:00:00.000Z''"
  let ?e = "Thrown (JObj [(''message'', JStr ''not found'')])"
  have a: "(Success (7::nat)) = Success 7
      \<and> quietLogger LOG ''Audit log created'' (auditData deleteUserAudit plainRequest ?ts) = None"
    by (simp add: quietLogger_def)
  have b: "(Failure ?e :: nat outcome) = Failure ?e \<and> error_message ?e = Inr (JStr ''not found'')
      \<and> quietLogger ERROR ''Audit log created (failed action)''
           (obj_set (auditData deleteUserAudit plainRequest ?ts) ''error'' (JStr ''not found'')) = None"
    by (simp add: quietLogger_def error_message_def)
  from a b
    audit_keeps_outcome [where logger = quietLogger and request = plainRequest and timestamp = ?ts
      and handle = "Success (7::nat)" and v = 7 and opts = deleteUserAudit]
    audit_keeps_outcome [where logger = quietLogger and request = plainRequest and timestamp = ?ts
      and handle = "Failure ?e :: nat outcome" and e = ?e and m = "JStr ''not found''" and opts = deleteUserAudit]
    audit_keeps_outcome [where logger = failingLogger and request = plainRequest and timestamp = ?ts
      and handle = "Success (7::nat)"]
  show ?thesis by blast
qed

section \<open>Properties of the permission check\<close>

text \<open>
  C7, evaluated. \<open>hasPermission\<close> answers \<open>false\<close> for a user whose role holds
  \<open>users:delete\<close>, as for every user and permission, and the decorator only stores the
  required permissions as metadata: the guards take no permission metadata, and a principal
  whose only role is \<open>viewer\<close> passes the tenant guard and the role guard of an
  operation that requires \<open>users:delete\<close>.
\<close>

theorem hasPermission_stub:
  "hasPermission \<lparr>User_id = ''u-admin'', User_tenantId = ''t1'', User_email = ''admin@example.com'',
       User_isActive = True\<rparr> ''users:delete'' = False
   \<and> Permissions [''users:delete''] = (''permissions'', [''users:delete''])
   \<and> verdict (TenantGuard_canActivate None (cls_set emptyCls TENANT_ID_KEY (Some ''tenant-a''))
        (plainRequest\<lparr>req_user := Some viewerOfTenantA\<rparr>)) = Inr True
   \<and> RolesGuard_canActivate None (plainRequest\<lparr>req_user := Some viewerOfTenantA\<rparr>) = Inr True"
proof -
  have "hasPermission \<lparr>User_id = ''u-admin'', User_tenantId = ''t1'', User_email = ''admin@example.com'',
       User_isActive = True\<rparr> ''users:delete'' = False"
    by (simp add: hasPermission_def)
  moreover have "Permissions [''users:delete''] = (''permissions'', [''users:delete''])"
    by (simp add: Permissions_def PERMISSIONS_KEY_def)
  moreover have "verdict (TenantGuard_canActivate None (cls_set emptyCls TENANT_ID_KEY (Some ''tenant-a''))
        (plainRequest\<lparr>req_user := Some viewerOfTenantA\<rparr>)) = Inr True"
    by (simp add: TenantGuard_canActivate_def verdict_def cls_get_set js_or_def truthy_def
        viewerOfTenantA_def Let_def)
  moreover have "RolesGuard_canActivate None (plainRequest\<lparr>req_user := Some viewerOfTenantA\<rparr>) = Inr True"
    by (simp add: RolesGuard_canActivate_def)
  ultimately show ?thesis by blast
qed

end
